theory Spec2Isabelle
  imports Complex_Main "HOL-Library.Word"
begin

section \<open>Python values, errors and the builtins the server calls\<close>

text \<open>
  The server (building_map_server.py) walks a building model whose attributes are
  dynamically typed. A parameter value of the model is a string, an integer, a float, a
  boolean or None. A float that the server only copies (a coordinate, an elevation, a
  scale, an angle) is a real number.
\<close>

datatype pyval = PNone | PBool bool | PInt int | PFloat real | PStr string

text \<open>Every exception the translation can raise is a value; \<open>Inl\<close> carries it.\<close>

datatype py_error =
    KeyError string
  | IndexError
  | ValueError
  | TypeError
  | OverflowError
  | OSError string

type_synonym 'a result = "py_error + 'a"

definition bind_r :: "'a result \<Rightarrow> ('a \<Rightarrow> 'b result) \<Rightarrow> 'b result" where
  "bind_r m f = (case m of Inl e \<Rightarrow> Inl e | Inr v \<Rightarrow> f v)"

text \<open>A for loop that appends one message per element and stops at the first exception.\<close>

fun map_r :: "('a \<Rightarrow> 'b result) \<Rightarrow> 'a list \<Rightarrow> 'b list result" where
  "map_r f [] = Inr []"
| "map_r f (x # xs) = bind_r (f x) (\<lambda>y. bind_r (map_r f xs) (\<lambda>ys. Inr (y # ys)))"

text \<open>Truth value of a Python object, as \<open>if v:\<close> tests it.\<close>

fun py_truthy :: "pyval \<Rightarrow> bool" where
  "py_truthy PNone = False"
| "py_truthy (PBool b) = b"
| "py_truthy (PInt i) = (i \<noteq> 0)"
| "py_truthy (PFloat r) = (r \<noteq> 0)"
| "py_truthy (PStr s) = (s \<noteq> [])"

text \<open>
  \<open>xs[i]\<close> on a Python list: a negative index counts from the end, and an index outside
  \<open>-len(xs) .. len(xs) - 1\<close> raises IndexError.
\<close>

definition py_index :: "'a list \<Rightarrow> int \<Rightarrow> 'a result" where
  "py_index xs i =
     (if 0 \<le> i \<and> i < int (length xs) then Inr (xs ! nat i)
      else if i < 0 \<and> - int (length xs) \<le> i then Inr (xs ! nat (int (length xs) + i))
      else Inl IndexError)"

text \<open>\<open>d[k]\<close> on a Python dict: a missing key raises KeyError.\<close>

definition py_getitem :: "(string \<rightharpoonup> 'v) \<Rightarrow> string \<Rightarrow> 'v result" where
  "py_getitem d k = (case d k of None \<Rightarrow> Inl (KeyError k) | Some v \<Rightarrow> Inr v)"

text \<open>
  \<open>s.split(c)\<close> with a one-character separator: the pieces between the separators, in
  order; always at least one piece.
\<close>

fun py_split :: "char \<Rightarrow> string \<Rightarrow> string list" where
  "py_split c [] = [[]]"
| "py_split c (x # xs) =
     (if x = c then [] # py_split c xs
      else (case py_split c xs of
              [] \<Rightarrow> [[x]]
            | p # ps \<Rightarrow> (x # p) # ps))"

text \<open>
  The value \<open>float(v)\<close> returns is an IEEE double: a finite number, an infinity or a
  NaN (\<open>float('inf')\<close>, \<open>float('nan')\<close> and \<open>float('1e400')\<close> return the last two kinds).

  \<open>float\<close> itself belongs to the language and not to this program: it parses strings by
  the grammar of float literals, rounds an integer to the nearest double, and raises
  ValueError on a string it cannot parse, OverflowError on an integer beyond the range of
  the doubles and TypeError on None. The translation below takes it as a parameter
  \<open>py_float\<close> of type \<open>pyval \<Rightarrow> float64 result\<close>, about which nothing is assumed: \<open>Inl\<close>
  where \<open>float\<close> raises, \<open>Inr\<close> with the double it returns otherwise.
\<close>

datatype float64 = Finite real | PosInf | NegInf | NaN

text \<open>\<open>str(i)\<close> on an integer: its decimal digits, with a minus sign when negative.\<close>

definition digit_char :: "nat \<Rightarrow> char" where
  "digit_char d = ''0123456789'' ! d"

fun str_nat :: "nat \<Rightarrow> string" where
  "str_nat n = (if n < 10 then [digit_char n] else str_nat (n div 10) @ [digit_char (n mod 10)])"

definition py_str :: "int \<Rightarrow> string" where
  "py_str i = (if i < 0 then CHR ''-'' # str_nat (nat (- i)) else str_nat (nat i))"

text \<open>\<open>range(a, b)\<close>: the integers from \<open>a\<close> up to \<open>b - 1\<close>.\<close>

definition py_range :: "int \<Rightarrow> int \<Rightarrow> int list" where
  "py_range a b = [a..b - 1]"

text \<open>
  \<open>os.path.join(d, f)\<close> on POSIX, for two components: an absolute \<open>f\<close> replaces \<open>d\<close>; a
  separator is inserted unless \<open>d\<close> is empty or already ends with one.
\<close>

definition path_join :: "string \<Rightarrow> string \<Rightarrow> string" where
  "path_join d f =
     (if f \<noteq> [] \<and> hd f = CHR ''/'' then f
      else if d = [] \<or> last d = CHR ''/'' then d @ f
      else d @ ''/'' @ f)"

text \<open>
  The file system the server reads: a path that can be opened for reading maps to the
  bytes of the file; \<open>open\<close> on any other path raises an OSError.
\<close>

type_synonym bytes = "8 word list"
type_synonym filesystem = "string \<rightharpoonup> bytes"

definition read_file :: "filesystem \<Rightarrow> string \<Rightarrow> bytes result" where
  "read_file fs path = (case fs path of None \<Rightarrow> Inl (OSError path) | Some b \<Rightarrow> Inr b)"

section \<open>The building model (input)\<close>

text \<open>
  The classes of \<open>building_map.building\<close> are read by the server through these
  attributes only; the attributes \<open>name\<close>, \<open>x\<close>, \<open>y\<close>, \<open>yaw\<close>, \<open>width\<close> and \<open>depth\<close> carry
  the name of their class in front. A dict of the model is a map, or an association list
  where the server iterates over it (\<open>items()\<close> yields the entries in insertion order).
  The entry \<open>params[k].value\<close> of a door is the value the map \<open>params\<close> gives for \<open>k\<close>.
\<close>

record vertex =
  vertex_x :: real
  vertex_y :: real

record door =
  start_idx :: int
  end_idx :: int
  params :: "string \<rightharpoonup> pyval"

record transform =
  scale :: real
  translation :: "real \<times> real"
  rotation :: real

text \<open>
  The dict \<open>generate_nav_graph\<close> returns: \<open>g['vertices']\<close> is a list of
  \<open>(x, y, params)\<close> and \<open>g['lanes']\<close> a list of \<open>(v1_idx, v2_idx, params)\<close>.
\<close>

record nav_graph =
  vertices_of :: "(real \<times> real \<times> (string \<rightharpoonup> pyval)) list"
  lanes_of :: "(int \<times> int \<times> (string \<rightharpoonup> pyval)) list"

text \<open>
  \<open>generate_nav_graph\<close> is a method of the model's Level class; the server only calls it,
  so it is a field of the level: the graph for an index and an \<open>always_unidirectional\<close>
  flag.
\<close>

record level =
  level_name :: string
  elevation :: real
  drawing_name :: "string option"
  transform :: transform
  vertices :: "vertex list"
  doors :: "door list"
  generate_nav_graph :: "int \<Rightarrow> bool \<Rightarrow> nav_graph"

record lift =
  lift_name :: string
  level_names :: "string list"
  lift_x :: real
  lift_y :: real
  lift_yaw :: real
  lift_width :: real
  lift_depth :: real

record building =
  building_name :: string
  levels :: "(string \<times> level) list"
  lifts :: "(string \<times> lift) list"

section \<open>The wire messages (output)\<close>

text \<open>
  The message classes of \<open>building_map_msgs\<close>, one record per class; a field \<open>f\<close> of the
  message class \<open>M\<close> is the field \<open>M_f\<close>. The constants of Door and GraphEdge are the
  constructors of two enumerations. A field holds the value the server assigns to it: a
  name or a motion direction taken from a parameter bag keeps the dynamic type it has
  there. The checks a generated message class makes when a field is assigned are not
  part of the server's source and are not modelled.
\<close>

datatype door_type =
    DOOR_TYPE_UNDEFINED
  | DOOR_TYPE_SINGLE_SLIDING
  | DOOR_TYPE_DOUBLE_SLIDING
  | DOOR_TYPE_SINGLE_SWING
  | DOOR_TYPE_DOUBLE_SWING

datatype edge_type = EDGE_TYPE_BIDIRECTIONAL | EDGE_TYPE_UNIDIRECTIONAL

record AffineImage =
  AffineImage_encoding :: string
  AffineImage_scale :: real
  AffineImage_x_offset :: real
  AffineImage_y_offset :: real
  AffineImage_yaw :: real
  AffineImage_data :: bytes

record Door =
  Door_door_name :: pyval
  Door_v1_x :: real
  Door_v1_y :: real
  Door_v2_x :: real
  Door_v2_y :: real
  Door_motion_range :: float64
  Door_motion_direction :: pyval
  Door_door_type :: door_type

record GraphNode =
  GraphNode_x :: real
  GraphNode_y :: real
  GraphNode_name :: pyval

record GraphEdge =
  GraphEdge_v1_idx :: int
  GraphEdge_v2_idx :: int
  GraphEdge_edge_type :: edge_type

record Graph =
  Graph_name :: string
  Graph_vertices :: "GraphNode list"
  Graph_edges :: "GraphEdge list"

record Level =
  Level_name :: string
  Level_elevation :: real
  Level_images :: "AffineImage list"
  Level_doors :: "Door list"
  Level_nav_graphs :: "Graph list"

record Lift =
  Lift_name :: string
  Lift_levels :: "string list"
  Lift_ref_x :: real
  Lift_ref_y :: real
  Lift_ref_yaw :: real
  Lift_width :: real
  Lift_depth :: real

record BuildingMap =
  BuildingMap_name :: string
  BuildingMap_levels :: "Level list"
  BuildingMap_lifts :: "Lift list"

section \<open>The translation: \<open>BuildingMapServer\<close>\<close>

text \<open>
  \<open>level_msg\<close> has three parts, each a definition here: the floor-plan image (lines
  78 to 94), the doors (lines 96 to 119) and the navigation graphs (lines 122 to 143).
  The two \<open>print\<close> calls write to the standard output and have no part in the result.

  The image: \<open>if level.drawing_name:\<close> is false for None and for the empty string. The
  encoding is \<open>image_filename.split('.')[-1]\<close>; the file is opened after the encoding and
  the transform are read.
\<close>

definition image_msgs :: "filesystem \<Rightarrow> string \<Rightarrow> level \<Rightarrow> AffineImage list result" where
  "image_msgs fs map_dir lv =
     (case drawing_name lv of
        None \<Rightarrow> Inr []
      | Some image_filename \<Rightarrow>
          if image_filename = [] then Inr []
          else
            bind_r (py_index (py_split CHR ''.'' image_filename) (- 1)) (\<lambda>enc.
            bind_r (read_file fs (path_join map_dir image_filename)) (\<lambda>dat.
            Inr [\<lparr>AffineImage_encoding = enc,
                  AffineImage_scale = scale (transform lv),
                  AffineImage_x_offset = fst (translation (transform lv)),
                  AffineImage_y_offset = snd (translation (transform lv)),
                  AffineImage_yaw = rotation (transform lv),
                  AffineImage_data = dat\<rparr>])))"

text \<open>The \<open>if\<close>/\<open>elif\<close> chain on the door's \<open>type\<close> parameter (lines 108 to 118).\<close>

definition door_type_of :: "pyval \<Rightarrow> door_type" where
  "door_type_of t =
     (if t = PStr ''sliding'' then DOOR_TYPE_SINGLE_SLIDING
      else if t = PStr ''hinged'' then DOOR_TYPE_SINGLE_SWING
      else if t = PStr ''double_sliding'' then DOOR_TYPE_DOUBLE_SLIDING
      else if t = PStr ''double_hinged'' then DOOR_TYPE_DOUBLE_SWING
      else DOOR_TYPE_UNDEFINED)"

text \<open>
  The body of the loop over the doors (lines 98 to 119), in the order the source
  evaluates it: the name, the start vertex, the end vertex, the motion range, the motion
  direction, the type. The source indexes the vertex list once for each coordinate; the
  two lookups of one index give the same vertex or the same IndexError. \<open>py_float\<close> is
  the builtin \<open>float\<close>; what it raises is raised by the loop, what it returns is stored.
\<close>

definition door_msg :: "(pyval \<Rightarrow> float64 result) \<Rightarrow> level \<Rightarrow> door \<Rightarrow> Door result" where
  "door_msg py_float lv d =
     bind_r (py_getitem (params d) ''name'') (\<lambda>nm.
     bind_r (py_index (vertices lv) (start_idx d)) (\<lambda>v1.
     bind_r (py_index (vertices lv) (end_idx d)) (\<lambda>v2.
     bind_r (py_getitem (params d) ''motion_degrees'') (\<lambda>md.
     bind_r (py_float md) (\<lambda>rng.
     bind_r (py_getitem (params d) ''motion_direction'') (\<lambda>dir.
     bind_r (py_getitem (params d) ''type'') (\<lambda>t.
     Inr \<lparr>Door_door_name = nm,
          Door_v1_x = vertex_x v1,
          Door_v1_y = vertex_y v1,
          Door_v2_x = vertex_x v2,
          Door_v2_y = vertex_y v2,
          Door_motion_range = rng,
          Door_motion_direction = dir,
          Door_door_type = door_type_of t\<rparr>)))))))"

definition door_msgs :: "(pyval \<Rightarrow> float64 result) \<Rightarrow> level \<Rightarrow> Door list result" where
  "door_msgs py_float lv =
     (if length (doors lv) \<noteq> 0 then map_r (door_msg py_float lv) (doors lv) else Inr [])"

text \<open>
  The navigation graphs: one \<open>GraphNode\<close> for each vertex \<open>v\<close> (\<open>v[0]\<close>, \<open>v[1]\<close>,
  \<open>v[2]['name']\<close>), one \<open>GraphEdge\<close> for each lane \<open>l\<close> (\<open>l[0]\<close>, \<open>l[1]\<close>,
  \<open>l[2]['is_bidirectional']\<close>), the vertices first.
\<close>

definition graph_node :: "real \<times> real \<times> (string \<rightharpoonup> pyval) \<Rightarrow> GraphNode result" where
  "graph_node v =
     bind_r (py_getitem (snd (snd v)) ''name'') (\<lambda>nm.
     Inr \<lparr>GraphNode_x = fst v, GraphNode_y = fst (snd v), GraphNode_name = nm\<rparr>)"

definition graph_edge :: "int \<times> int \<times> (string \<rightharpoonup> pyval) \<Rightarrow> GraphEdge result" where
  "graph_edge l =
     bind_r (py_getitem (snd (snd l)) ''is_bidirectional'') (\<lambda>b.
     Inr \<lparr>GraphEdge_v1_idx = fst l,
          GraphEdge_v2_idx = fst (snd l),
          GraphEdge_edge_type =
            (if py_truthy b then EDGE_TYPE_BIDIRECTIONAL else EDGE_TYPE_UNIDIRECTIONAL)\<rparr>)"

definition graph_msg :: "int \<Rightarrow> nav_graph \<Rightarrow> Graph result" where
  "graph_msg i g =
     bind_r (map_r graph_node (vertices_of g)) (\<lambda>vs.
     bind_r (map_r graph_edge (lanes_of g)) (\<lambda>es.
     Inr \<lparr>Graph_name = py_str i, Graph_vertices = vs, Graph_edges = es\<rparr>))"

text \<open>
  The loop \<open>for i in range(0, 9)\<close>, over the list of indices still to visit; an index
  whose graph has no lanes is skipped by \<open>continue\<close>.
\<close>

fun nav_graph_msgs :: "(int \<Rightarrow> bool \<Rightarrow> nav_graph) \<Rightarrow> int list \<Rightarrow> Graph list result" where
  "nav_graph_msgs gen [] = Inr []"
| "nav_graph_msgs gen (i # ks) =
     (let g = gen i False
      in if lanes_of g = [] then nav_graph_msgs gen ks
         else bind_r (graph_msg i g) (\<lambda>gm.
              bind_r (nav_graph_msgs gen ks) (\<lambda>gs.
              Inr (gm # gs))))"

definition level_msg ::
  "filesystem \<Rightarrow> (pyval \<Rightarrow> float64 result) \<Rightarrow> string \<Rightarrow> level \<Rightarrow> Level result" where
  "level_msg fs py_float map_dir lv =
     bind_r (image_msgs fs map_dir lv) (\<lambda>imgs.
     bind_r (door_msgs py_float lv) (\<lambda>ds.
     bind_r (nav_graph_msgs (generate_nav_graph lv) (py_range 0 9)) (\<lambda>gs.
     Inr \<lparr>Level_name = level_name lv,
          Level_elevation = elevation lv,
          Level_images = imgs,
          Level_doors = ds,
          Level_nav_graphs = gs\<rparr>)))"

definition lift_msg :: "lift \<Rightarrow> Lift" where
  "lift_msg lf =
     \<lparr>Lift_name = lift_name lf,
      Lift_levels = level_names lf,
      Lift_ref_x = lift_x lf,
      Lift_ref_y = lift_y lf,
      Lift_ref_yaw = lift_yaw lf,
      Lift_width = lift_width lf,
      Lift_depth = lift_depth lf\<rparr>"

text \<open>
  \<open>building_map_msg\<close>: the levels in the order of \<open>building.levels.items()\<close>, then the
  lifts in the order of \<open>building.lifts.items()\<close>; the keys are not read.
\<close>

definition building_map_msg ::
  "filesystem \<Rightarrow> (pyval \<Rightarrow> float64 result) \<Rightarrow> string \<Rightarrow> building \<Rightarrow> BuildingMap result" where
  "building_map_msg fs py_float map_dir b =
     bind_r (map_r (\<lambda>(_, level_data). level_msg fs py_float map_dir level_data) (levels b)) (\<lambda>ls.
     Inr \<lparr>BuildingMap_name = building_name b,
          BuildingMap_levels = ls,
          BuildingMap_lifts = map (\<lambda>(_, lift_data). lift_msg lift_data) (lifts b)\<rparr>)"

section \<open>The service\<close>

text \<open>
  The node keeps the directory of the map, the model and the message built from it in
  \<open>__init__\<close>. \<open>get_building_map\<close> is the handler of the service: it logs a line, stores
  \<open>self.map_msg\<close> in the response it was given and returns that response. The handler is
  a step on the state of the node: it returns the state it leaves and the response.
\<close>

record server =
  map_dir :: string
  building :: building
  map_msg :: BuildingMap

record Response =
  Response_building_map :: BuildingMap

definition get_building_map :: "server \<Rightarrow> 'req \<Rightarrow> Response \<Rightarrow> server \<times> Response" where
  "get_building_map self request response =
     (self, response\<lparr>Response_building_map := map_msg self\<rparr>)"

text \<open>
  A sequence of calls of the handler, each with its request and the response object the
  transport hands in: the state threads through, the responses are collected.
\<close>

fun serve :: "server \<Rightarrow> ('req \<times> Response) list \<Rightarrow> server \<times> Response list" where
  "serve self [] = (self, [])"
| "serve self ((request, response) # calls) =
     (let (self', r) = get_building_map self request response;
          (self'', rs) = serve self' calls
      in (self'', r # rs))"

section \<open>The encoding as the specification words it\<close>

text \<open>
  The specification asks for the lowercase substring after the last \<open>.\<close> of the
  filename. This definition follows those words, not the source: the characters after
  the last \<open>.\<close>, each upper-case ASCII letter replaced by its lower-case letter, as
  \<open>str.lower\<close> does.
\<close>

definition py_lower_char :: "char \<Rightarrow> char" where
  "py_lower_char c =
     (case map_of (zip ''ABCDEFGHIJKLMNOPQRSTUVWXYZ'' ''abcdefghijklmnopqrstuvwxyz'') c of
        None \<Rightarrow> c
      | Some l \<Rightarrow> l)"

definition spec_encoding :: "string \<Rightarrow> string" where
  "spec_encoding filename =
     map py_lower_char (rev (takeWhile (\<lambda>c. c \<noteq> CHR ''.'') (rev filename)))"

section \<open>A small building\<close>

text \<open>
  Concrete inputs for the theorems below: a level \<open>L1\<close> at elevation 0 with two vertices
  at (0, 0) and (1, 0), whose navigation graph 0 has one bidirectional lane and whose
  other graphs have none; a door with the four required parameters; a file system with
  two image files; and what \<open>float\<close> does on the three values the examples convert:
  the string \<open>90\<close> gives 90.0, the integer \<open>10 ** 400\<close> raises OverflowError, the string
  \<open>wide\<close> (as every other value here, none of which is used) raises ValueError.
\<close>

definition example_float :: "pyval \<Rightarrow> float64 result" where
  "example_float v =
     (if v = PStr ''90'' then Inr (Finite 90)
      else if v = PInt (10 ^ 400) then Inl OverflowError
      else Inl ValueError)"

definition example_params :: "pyval \<Rightarrow> (string \<rightharpoonup> pyval)" where
  "example_params t =
     [''name'' \<mapsto> PStr ''main_door'', ''motion_degrees'' \<mapsto> PStr ''90'',
      ''motion_direction'' \<mapsto> PInt 1, ''type'' \<mapsto> t]"

definition example_door :: "int \<Rightarrow> int \<Rightarrow> (string \<rightharpoonup> pyval) \<Rightarrow> door" where
  "example_door i j ps = \<lparr>start_idx = i, end_idx = j, params = ps\<rparr>"

definition example_graph :: "int \<Rightarrow> bool \<Rightarrow> nav_graph" where
  "example_graph i always_unidirectional =
     (if i = 0 then
        \<lparr>vertices_of = [(0, 0, [''name'' \<mapsto> PStr ''a'']), (1, 0, [''name'' \<mapsto> PStr ''b''])],
         lanes_of = [(0, 1, [''is_bidirectional'' \<mapsto> PBool True])]\<rparr>
      else \<lparr>vertices_of = [], lanes_of = []\<rparr>)"

definition example_level :: "string option \<Rightarrow> door list \<Rightarrow> level" where
  "example_level dn ds =
     \<lparr>level_name = ''L1'', elevation = 0, drawing_name = dn,
      transform = \<lparr>scale = 1, translation = (0, 0), rotation = 0\<rparr>,
      vertices = [\<lparr>vertex_x = 0, vertex_y = 0\<rparr>, \<lparr>vertex_x = 1, vertex_y = 0\<rparr>],
      doors = ds, generate_nav_graph = example_graph\<rparr>"

definition example_fs :: filesystem where
  "example_fs = [''maps/floor1.PNG'' \<mapsto> [137, 80, 78, 71], ''maps/plan'' \<mapsto> [1, 2]]"

definition example_lift :: "string \<Rightarrow> lift" where
  "example_lift n =
     \<lparr>lift_name = n, level_names = [''L1'', ''L2''], lift_x = 2, lift_y = 3, lift_yaw = 0,
      lift_width = 1, lift_depth = 1\<rparr>"

definition example_building :: building where
  "example_building =
     \<lparr>building_name = ''demo'',
      levels = [(''L2'', (example_level None [])\<lparr>level_name := ''L2''\<rparr>),
                (''L1'', example_level None [])],
      lifts = [(''west'', example_lift ''west''), (''east'', example_lift ''east'')]\<rparr>"

section \<open>Results and loops\<close>

lemma bind_r_Inl [simp]: "bind_r (Inl e) f = Inl e"
  by (simp add: bind_r_def)

lemma bind_r_Inr [simp]: "bind_r (Inr v) f = f v"
  by (simp add: bind_r_def)

lemma bind_r_eq_Inr: "bind_r m f = Inr y \<longleftrightarrow> (\<exists>v. m = Inr v \<and> f v = Inr y)"
  by (cases m) simp_all

lemma bind_r_isl: "isl (bind_r m f) \<longleftrightarrow> isl m \<or> (\<exists>v. m = Inr v \<and> isl (f v))"
  by (cases m) simp_all

text \<open>A loop that returns has translated every element, in order.\<close>

lemma map_r_all2: "map_r f xs = Inr ys \<Longrightarrow> list_all2 (\<lambda>x y. f x = Inr y) xs ys"
proof (induction xs arbitrary: ys)
  case Nil
  then show ?case by simp
next
  case (Cons x xs)
  then obtain y ys' where "f x = Inr y" "map_r f xs = Inr ys'" "ys = y # ys'"
    by (auto simp: bind_r_eq_Inr)
  with Cons.IH show ?case by simp
qed

text \<open>A loop whose every step returns does return.\<close>

lemma map_r_success:
  "\<forall>x \<in> set xs. \<exists>y. f x = Inr y \<Longrightarrow> \<exists>ys. map_r f xs = Inr ys"
  by (induction xs) auto

text \<open>One failing element fails the loop, wherever it stands in the list.\<close>

lemma map_r_fails: "x \<in> set xs \<Longrightarrow> isl (f x) \<Longrightarrow> isl (map_r f xs)"
proof (induction xs)
  case Nil
  then show ?case by simp
next
  case (Cons a xs)
  show ?case
  proof (cases "f a")
    case (Inl e)
    then show ?thesis by simp
  next
    case (Inr b)
    with Cons have "isl (map_r f xs)" by auto
    with Inr show ?thesis by (cases "map_r f xs") simp_all
  qed
qed

lemma all2_map_eq: "list_all2 (\<lambda>x y. g y = h x) xs ys \<Longrightarrow> map g ys = map h xs"
  by (induction rule: list_all2_induct) simp_all

section \<open>The service answers every fetch with the stored message\<close>

lemma serve_state: "fst (serve self calls) = self"
  by (induction calls) (auto simp: get_building_map_def split: prod.splits)

lemma serve_responses:
  "map Response_building_map (snd (serve self calls)) = replicate (length calls) (map_msg self)"
proof (induction calls)
  case Nil
  then show ?case by simp
next
  case (Cons c calls)
  obtain rq rs where c: "c = (rq, rs)" by (cases c)
  show ?case using Cons by (auto simp: c get_building_map_def split: prod.splits)
qed

text \<open>
  Claim C8. After any number of sequential calls of \<open>get_building_map\<close>, whatever the
  requests and the response objects handed in, the node is in the state it started in
  (so the stored message was neither rebuilt nor changed), every response carries the
  stored message (so each equals the first), and two calls that differ only in the
  request return the same.
\<close>

theorem fetch_idempotent:
  "fst (serve self calls) = self
   \<and> map Response_building_map (snd (serve self calls)) = replicate (length calls) (map_msg self)
   \<and> get_building_map self request1 response = get_building_map self request2 response"
  by (simp add: serve_state serve_responses get_building_map_def)

section \<open>Levels and lifts keep the order of the model\<close>

lemma level_msg_name: "level_msg fs py_float dir lv = Inr m \<Longrightarrow> Level_name m = level_name lv"
  by (auto simp: level_msg_def bind_r_eq_Inr)

text \<open>
  Claim C6. When \<open>building_map_msg\<close> returns a message, the names of its levels, in
  order, are the names of the model's levels in the order of \<open>building.levels\<close>, and the
  names of its lifts are the names of the model's lifts in the order of
  \<open>building.lifts\<close>.
\<close>

theorem order_preserved:
  assumes "building_map_msg fs py_float dir b = Inr msg"
  shows "map Level_name (BuildingMap_levels msg) = map (level_name \<circ> snd) (levels b)
         \<and> map Lift_name (BuildingMap_lifts msg) = map (lift_name \<circ> snd) (lifts b)"
proof -
  from assms obtain ls where
    ls: "map_r (\<lambda>(_, level_data). level_msg fs py_float dir level_data) (levels b) = Inr ls"
    and msg: "msg = \<lparr>BuildingMap_name = building_name b, BuildingMap_levels = ls,
        BuildingMap_lifts = map (\<lambda>(_, lift_data). lift_msg lift_data) (lifts b)\<rparr>"
    by (auto simp: building_map_msg_def bind_r_eq_Inr)
  have "list_all2 (\<lambda>p m. Level_name m = (level_name \<circ> snd) p) (levels b) ls"
    using map_r_all2 [OF ls]
    by (rule list_all2_mono) (auto dest: level_msg_name)
  then have "map Level_name ls = map (level_name \<circ> snd) (levels b)"
    by (rule all2_map_eq)
  moreover have "map Lift_name (map (\<lambda>(_, lift_data). lift_msg lift_data) (lifts b))
      = map (lift_name \<circ> snd) (lifts b)"
    by (induction "lifts b") (auto simp: lift_msg_def split: prod.splits)
  ultimately show ?thesis by (simp add: msg)
qed

lemmas example_defs =
  example_level_def example_door_def example_params_def example_fs_def example_float_def
  example_graph_def example_lift_def example_building_def

lemmas server_defs =
  building_map_msg_def level_msg_def image_msgs_def door_msgs_def door_msg_def
  door_type_of_def graph_msg_def graph_node_def graph_edge_def lift_msg_def
  py_index_def py_getitem_def read_file_def path_join_def py_range_def py_str_def
  digit_char_def upto.simps

theorem order_preserved_witness:
  "\<exists>msg. building_map_msg example_fs example_float ''maps'' example_building = Inr msg
     \<and> map Level_name (BuildingMap_levels msg) = [''L2'', ''L1'']
     \<and> map Lift_name (BuildingMap_lifts msg) = [''west'', ''east'']"
proof -
  have "\<exists>msg. building_map_msg example_fs example_float ''maps'' example_building = Inr msg"
    by (simp add: example_defs server_defs)
  then obtain msg where
    msg: "building_map_msg example_fs example_float ''maps'' example_building = Inr msg" ..
  from order_preserved [OF msg] have
    "map Level_name (BuildingMap_levels msg) = [''L2'', ''L1'']
     \<and> map Lift_name (BuildingMap_lifts msg) = [''west'', ''east'']"
    by (simp add: example_defs)
  with msg show ?thesis by (intro exI [of _ msg]) simp
qed

section \<open>Doors\<close>

text \<open>
  Claim C3. A door whose parameters are all present, whose motion range converts and
  whose two indices are valid is translated without an exception, whatever its \<open>type\<close>
  is, and the type of the message follows the table: \<open>sliding\<close> gives single sliding,
  \<open>hinged\<close> single swing, \<open>double_sliding\<close> double sliding, \<open>double_hinged\<close> double swing,
  and every other value the undefined type.
\<close>

theorem door_type_mapping:
  assumes "params d ''name'' = Some nm"
    and "py_index (vertices lv) (start_idx d) = Inr v1"
    and "py_index (vertices lv) (end_idx d) = Inr v2"
    and "params d ''motion_degrees'' = Some md"
    and "py_float md = Inr r"
    and "params d ''motion_direction'' = Some direction"
    and "params d ''type'' = Some t"
  shows "\<exists>m. door_msg py_float lv d = Inr m
           \<and> (t = PStr ''sliding'' \<longrightarrow> Door_door_type m = DOOR_TYPE_SINGLE_SLIDING)
           \<and> (t = PStr ''hinged'' \<longrightarrow> Door_door_type m = DOOR_TYPE_SINGLE_SWING)
           \<and> (t = PStr ''double_sliding'' \<longrightarrow> Door_door_type m = DOOR_TYPE_DOUBLE_SLIDING)
           \<and> (t = PStr ''double_hinged'' \<longrightarrow> Door_door_type m = DOOR_TYPE_DOUBLE_SWING)
           \<and> (t \<notin> {PStr ''sliding'', PStr ''hinged'', PStr ''double_sliding'', PStr ''double_hinged''}
                \<longrightarrow> Door_door_type m = DOOR_TYPE_UNDEFINED)"
  using assms by (simp add: door_msg_def py_getitem_def door_type_of_def)

theorem door_type_mapping_witness:
  "(\<exists>m. door_msg example_float (example_level None [])
          (example_door 0 1 (example_params (PStr ''foo''))) = Inr m
      \<and> Door_door_type m = DOOR_TYPE_UNDEFINED)
   \<and> (\<exists>m. door_msg example_float (example_level None [])
          (example_door 0 1 (example_params (PStr ''hinged''))) = Inr m
      \<and> Door_door_type m = DOOR_TYPE_SINGLE_SWING)"
  using door_type_mapping [of "example_door 0 1 (example_params (PStr ''foo''))" "PStr ''main_door''"
      "example_level None []" "\<lparr>vertex_x = 0, vertex_y = 0\<rparr>" "\<lparr>vertex_x = 1, vertex_y = 0\<rparr>"
      "PStr ''90''" example_float "Finite 90" "PInt 1" "PStr ''foo''"]
    door_type_mapping [of "example_door 0 1 (example_params (PStr ''hinged''))" "PStr ''main_door''"
      "example_level None []" "\<lparr>vertex_x = 0, vertex_y = 0\<rparr>" "\<lparr>vertex_x = 1, vertex_y = 0\<rparr>"
      "PStr ''90''" example_float "Finite 90" "PInt 1" "PStr ''hinged''"]
  by (simp add: example_door_def example_params_def example_level_def example_float_def py_index_def)

section \<open>The floor-plan image\<close>

lemma py_split_not_Nil [simp]: "py_split c s \<noteq> []"
  by (induction s) (auto split: list.splits)

lemma py_split_no_sep: "c \<notin> set s \<Longrightarrow> py_split c s = [s]"
  by (induction s) auto

lemma py_split_length: "length (py_split c s) = Suc (length (filter (\<lambda>a. a = c) s))"
  by (induction s) (auto split: list.splits)

lemma py_split_last_no_sep: "c \<notin> set (last (py_split c s))"
  by (induction s) (auto split: list.splits)

lemma py_split_last_sep:
  "c \<in> set s \<Longrightarrow> \<exists>pre. s = pre @ c # last (py_split c s)"
proof (induction s)
  case Nil
  then show ?case by simp
next
  case (Cons a s)
  show ?case
  proof (cases "c \<in> set s")
    case True
    then obtain pre where pre: "s = pre @ c # last (py_split c s)"
      using Cons.IH by blast
    from True have "filter (\<lambda>a. a = c) s \<noteq> []"
      by (auto simp: filter_empty_conv)
    then have "2 \<le> length (py_split c s)"
      by (cases "filter (\<lambda>a. a = c) s") (simp_all add: py_split_length)
    then obtain p q ps where ps: "py_split c s = p # q # ps"
      by (cases "py_split c s"; cases "tl (py_split c s)") auto
    have "last (py_split c (a # s)) = last (py_split c s)"
      by (simp add: ps)
    with pre have "a # s = (a # pre) @ c # last (py_split c (a # s))"
      by simp
    then show ?thesis by blast
  next
    case False
    with Cons.prems have "a = c" by simp
    with False have "a # s = [] @ c # last (py_split c (a # s))"
      by (simp add: py_split_no_sep)
    then show ?thesis by blast
  qed
qed

lemma py_index_last: "xs \<noteq> [] \<Longrightarrow> py_index xs (- 1) = Inr (last xs)"
  by (cases xs rule: rev_cases) (auto simp: py_index_def nth_append)

lemma encoding_of: "py_index (py_split c s) (- 1) = Inr (last (py_split c s))"
  by (simp add: py_index_last)

lemma image_msgs_none:
  "drawing_name lv = None \<or> drawing_name lv = Some [] \<Longrightarrow> image_msgs fs dir lv = Inr []"
  by (auto simp: image_msgs_def)

lemma image_msgs_some:
  assumes "drawing_name lv = Some fn" "fn \<noteq> []"
  shows "image_msgs fs dir lv =
     bind_r (read_file fs (path_join dir fn)) (\<lambda>dat.
       Inr [\<lparr>AffineImage_encoding = last (py_split CHR ''.'' fn),
             AffineImage_scale = scale (transform lv),
             AffineImage_x_offset = fst (translation (transform lv)),
             AffineImage_y_offset = snd (translation (transform lv)),
             AffineImage_yaw = rotation (transform lv),
             AffineImage_data = dat\<rparr>])"
  using assms by (simp add: image_msgs_def encoding_of)

lemma level_msg_images:
  "level_msg fs py_float dir lv = Inr m \<Longrightarrow> image_msgs fs dir lv = Inr (Level_images m)"
  by (auto simp: level_msg_def bind_r_eq_Inr)

lemma level_msg_image_some:
  assumes "level_msg fs py_float dir lv = Inr m"
    and "drawing_name lv = Some fn" and "fn \<noteq> []"
  shows "\<exists>dat. fs (path_join dir fn) = Some dat
           \<and> Level_images m =
               [\<lparr>AffineImage_encoding = last (py_split CHR ''.'' fn),
                 AffineImage_scale = scale (transform lv),
                 AffineImage_x_offset = fst (translation (transform lv)),
                 AffineImage_y_offset = snd (translation (transform lv)),
                 AffineImage_yaw = rotation (transform lv),
                 AffineImage_data = dat\<rparr>]"
proof (cases "fs (path_join dir fn)")
  case None
  with level_msg_images [OF assms(1)] show ?thesis
    by (simp add: image_msgs_some [OF assms(2,3)] read_file_def)
next
  case (Some dat)
  with level_msg_images [OF assms(1)] have "Level_images m =
               [\<lparr>AffineImage_encoding = last (py_split CHR ''.'' fn),
                 AffineImage_scale = scale (transform lv),
                 AffineImage_x_offset = fst (translation (transform lv)),
                 AffineImage_y_offset = snd (translation (transform lv)),
                 AffineImage_yaw = rotation (transform lv),
                 AffineImage_data = dat\<rparr>]"
    by (simp add: image_msgs_some [OF assms(2,3)] read_file_def)
  with Some show ?thesis by simp
qed

text \<open>
  Claim C5. In the message of a level, the list of images is empty when the level has no
  floor-plan reference (\<open>drawing_name\<close> is None, or the empty filename, which the test
  \<open>if level.drawing_name:\<close> treats alike), and has exactly one entry when the level
  names a floor-plan file.
\<close>

theorem image_count:
  assumes "level_msg fs py_float dir lv = Inr m"
  shows "(drawing_name lv = None \<or> drawing_name lv = Some [] \<longrightarrow> Level_images m = [])
         \<and> (\<forall>fn. drawing_name lv = Some fn \<and> fn \<noteq> [] \<longrightarrow> length (Level_images m) = 1)"
proof -
  note im = level_msg_images [OF assms]
  have "Level_images m = []" if "drawing_name lv = None \<or> drawing_name lv = Some []"
    using im image_msgs_none [OF that, of fs dir] by simp
  moreover have "length (Level_images m) = 1" if "drawing_name lv = Some fn" "fn \<noteq> []" for fn
    using level_msg_image_some [OF assms that] by auto
  ultimately show ?thesis by blast
qed

theorem image_count_witness:
  "(\<exists>m. level_msg example_fs example_float ''maps'' (example_level None []) = Inr m
       \<and> Level_images m = [])
   \<and> (\<exists>m. level_msg example_fs example_float ''maps'' (example_level (Some ''floor1.PNG'') []) = Inr m
       \<and> length (Level_images m) = 1)"
proof -
  have "\<exists>m. level_msg example_fs example_float ''maps'' (example_level None []) = Inr m"
    by (simp add: example_defs server_defs)
  then obtain m0 where
    m0: "level_msg example_fs example_float ''maps'' (example_level None []) = Inr m0" ..
  have "\<exists>m. level_msg example_fs example_float ''maps'' (example_level (Some ''floor1.PNG'') []) = Inr m"
    by (simp add: example_defs server_defs)
  then obtain m1 where
    m1: "level_msg example_fs example_float ''maps'' (example_level (Some ''floor1.PNG'') []) = Inr m1" ..
  from image_count [OF m0] have "Level_images m0 = []"
    by (simp add: example_level_def)
  moreover from image_count [OF m1] have "length (Level_images m1) = 1"
    by (simp add: example_level_def)
  ultimately show ?thesis using m0 m1 by simp
qed

text \<open>
  Claim C1, as stated, fails: the encoding is not lowercased. The level whose floor plan
  is \<open>floor1.PNG\<close> gets the encoding \<open>PNG\<close>, where the specification's words give
  \<open>png\<close>.
\<close>

theorem encoding_counterexample:
  "map_sum id (map AffineImage_encoding \<circ> Level_images)
     (level_msg example_fs example_float ''maps'' (example_level (Some ''floor1.PNG'') []))
     = Inr [''PNG'']
   \<and> spec_encoding ''floor1.PNG'' = ''png''
   \<and> map_sum id (map AffineImage_encoding \<circ> Level_images)
     (level_msg example_fs example_float ''maps'' (example_level (Some ''floor1.PNG'') []))
     \<noteq> Inr [spec_encoding ''floor1.PNG'']"
  by (simp add: example_defs server_defs spec_encoding_def py_lower_char_def)

text \<open>
  Claim C1, amended. For a level that names a floor-plan file, the one image of the
  message has as encoding the characters of the filename after its last \<open>.\<close>, in the
  case the filename has them: the encoding contains no \<open>.\<close>, and the filename is the
  encoding itself or ends with a \<open>.\<close> followed by the encoding.
\<close>

theorem encoding_is_suffix:
  assumes "level_msg fs py_float dir lv = Inr m"
    and "drawing_name lv = Some fn" and "fn \<noteq> []"
  shows "\<exists>img. Level_images m = [img]
           \<and> CHR ''.'' \<notin> set (AffineImage_encoding img)
           \<and> (fn = AffineImage_encoding img
               \<or> (\<exists>pre. fn = pre @ CHR ''.'' # AffineImage_encoding img))"
proof -
  from level_msg_image_some [OF assms] obtain img where
    img: "Level_images m = [img]" and
    enc: "AffineImage_encoding img = last (py_split CHR ''.'' fn)"
    by auto
  have "fn = last (py_split CHR ''.'' fn) \<or> (\<exists>pre. fn = pre @ CHR ''.'' # last (py_split CHR ''.'' fn))"
  proof (cases "CHR ''.'' \<in> set fn")
    case True
    then show ?thesis using py_split_last_sep by blast
  next
    case False
    then show ?thesis by (simp add: py_split_no_sep)
  qed
  with img enc show ?thesis
    by (simp add: py_split_last_no_sep)
qed

theorem encoding_is_suffix_witness:
  "\<exists>m img. level_msg example_fs example_float ''maps'' (example_level (Some ''floor1.PNG'') []) = Inr m
     \<and> Level_images m = [img]
     \<and> AffineImage_encoding img = ''PNG''"
proof -
  have "\<exists>m. level_msg example_fs example_float ''maps'' (example_level (Some ''floor1.PNG'') []) = Inr m"
    by (simp add: example_defs server_defs)
  then obtain m where
    m: "level_msg example_fs example_float ''maps'' (example_level (Some ''floor1.PNG'') []) = Inr m" ..
  have dn: "drawing_name (example_level (Some ''floor1.PNG'') []) = Some ''floor1.PNG''"
    by (simp add: example_level_def)
  from encoding_is_suffix [OF m dn] obtain img where
    img: "Level_images m = [img]" by auto
  from m img have "AffineImage_encoding img = ''PNG''"
    by (auto simp: example_defs server_defs)
  with m img show ?thesis by blast
qed

text \<open>
  Claim C9. For a filename without a \<open>.\<close>, taking the last piece of the split raises
  nothing and gives the whole filename; when the file can be read and the doors and the
  navigation graphs of the level translate, \<open>level_msg\<close> returns a message whose one
  image has the whole filename as encoding.
\<close>

theorem no_dot_encoding:
  assumes "drawing_name lv = Some fn" and "fn \<noteq> []" and "CHR ''.'' \<notin> set fn"
    and "fs (path_join dir fn) = Some dat"
    and "door_msgs py_float lv = Inr ds"
    and "nav_graph_msgs (generate_nav_graph lv) (py_range 0 9) = Inr gs"
  shows "py_index (py_split CHR ''.'' fn) (- 1) = Inr fn
         \<and> (\<exists>m. level_msg fs py_float dir lv = Inr m
               \<and> map AffineImage_encoding (Level_images m) = [fn])"
  using assms
  by (simp add: level_msg_def image_msgs_some py_split_no_sep read_file_def py_index_last)

theorem no_dot_encoding_witness:
  "py_index (py_split CHR ''.'' ''plan'') (- 1) = Inr ''plan''
   \<and> (\<exists>m. level_msg example_fs example_float ''maps'' (example_level (Some ''plan'') []) = Inr m
         \<and> map AffineImage_encoding (Level_images m) = [''plan''])"
proof -
  have "\<exists>gs. nav_graph_msgs (generate_nav_graph (example_level (Some ''plan'') [])) (py_range 0 9) = Inr gs"
    by (simp add: example_defs server_defs)
  then obtain gs where
    gs: "nav_graph_msgs (generate_nav_graph (example_level (Some ''plan'') [])) (py_range 0 9) = Inr gs" ..
  show ?thesis
    using no_dot_encoding [of "example_level (Some ''plan'') []" "''plan''" example_fs "''maps''"
        "[1, 2]" example_float "[]" gs] gs
    by (simp add: example_level_def example_fs_def path_join_def door_msgs_def)
qed

section \<open>Vertex indices of a door\<close>

lemma py_index_high: "int (length xs) \<le> i \<Longrightarrow> py_index xs i = Inl IndexError"
  by (simp add: py_index_def)

lemma py_index_nonneg: "0 \<le> i \<Longrightarrow> i < int (length xs) \<Longrightarrow> py_index xs i = Inr (xs ! nat i)"
  by (simp add: py_index_def)

lemma py_index_neg:
  "i < 0 \<Longrightarrow> - int (length xs) \<le> i \<Longrightarrow> py_index xs i = Inr (xs ! nat (int (length xs) + i))"
  by (simp add: py_index_def)

lemma door_msg_bad_index_error:
  assumes "int (length (vertices lv)) \<le> start_idx d \<or> int (length (vertices lv)) \<le> end_idx d"
    and "params d ''name'' = Some nm"
  shows "door_msg py_float lv d = Inl IndexError"
proof (cases "py_index (vertices lv) (start_idx d)")
  case (Inl e)
  then have "e = IndexError"
    by (auto simp: py_index_def split: if_splits)
  with Inl assms(2) show ?thesis
    by (simp add: door_msg_def py_getitem_def)
next
  case (Inr v)
  then have "\<not> int (length (vertices lv)) \<le> start_idx d"
    by (auto simp: py_index_def split: if_splits)
  with assms(1) have "int (length (vertices lv)) \<le> end_idx d" by simp
  with Inr assms(2) show ?thesis
    by (simp add: door_msg_def py_getitem_def py_index_high)
qed

lemma door_msg_bad_index:
  assumes "int (length (vertices lv)) \<le> start_idx d \<or> int (length (vertices lv)) \<le> end_idx d"
  shows "isl (door_msg py_float lv d)"
proof (cases "params d ''name''")
  case None
  then show ?thesis
    by (simp add: door_msg_def py_getitem_def)
next
  case (Some nm)
  from door_msg_bad_index_error [OF assms Some] show ?thesis by simp
qed

lemma level_msg_door_fails:
  assumes "d \<in> set (doors lv)" and "isl (door_msg py_float lv d)"
  shows "isl (level_msg fs py_float dir lv)"
proof -
  from assms(1) have "length (doors lv) \<noteq> 0" by auto
  then have "isl (door_msgs py_float lv)"
    using map_r_fails [where f = "door_msg py_float lv", OF assms] by (simp add: door_msgs_def)
  then show ?thesis
    by (simp add: level_msg_def bind_r_isl) (metis isl_def sum.collapse(2))
qed

lemma building_level_fails:
  assumes "(k, lv) \<in> set (levels b)" and "isl (level_msg fs py_float dir lv)"
  shows "isl (building_map_msg fs py_float dir b)"
proof -
  have "isl ((\<lambda>(_, level_data). level_msg fs py_float dir level_data) (k, lv))"
    using assms(2) by simp
  from map_r_fails [where f = "\<lambda>(_, level_data). level_msg fs py_float dir level_data", OF assms(1) this]
  show ?thesis
    by (simp add: building_map_msg_def bind_r_isl)
qed

text \<open>
  Claim C2. If a door of a level has a start or an end index that is at least the number
  of vertices of the level, \<open>level_msg\<close> raises for that level and \<open>building_map_msg\<close>
  raises for every building that holds the level: no message is produced, with the door
  clamped or left out. The door itself raises IndexError when its name is present.
\<close>

theorem bad_index_fails:
  assumes "d \<in> set (doors lv)"
    and "int (length (vertices lv)) \<le> start_idx d \<or> int (length (vertices lv)) \<le> end_idx d"
  shows "(\<exists>e. level_msg fs py_float dir lv = Inl e)
         \<and> (\<forall>b k. (k, lv) \<in> set (levels b) \<longrightarrow> (\<exists>e. building_map_msg fs py_float dir b = Inl e))
         \<and> (\<forall>nm. params d ''name'' = Some nm \<longrightarrow> door_msg py_float lv d = Inl IndexError)"
proof -
  have lv: "isl (level_msg fs py_float dir lv)"
    using level_msg_door_fails [OF assms(1) door_msg_bad_index [OF assms(2)]] .
  then have "\<exists>e. level_msg fs py_float dir lv = Inl e"
    by (simp add: isl_def)
  moreover have "\<exists>e. building_map_msg fs py_float dir b = Inl e" if "(k, lv) \<in> set (levels b)" for b k
    using building_level_fails [OF that lv] by (simp add: isl_def)
  moreover have "door_msg py_float lv d = Inl IndexError" if "params d ''name'' = Some nm" for nm
    using door_msg_bad_index_error [OF assms(2) that] .
  ultimately show ?thesis by blast
qed

theorem bad_index_fails_witness:
  "int (length (vertices (example_level None [])))
     \<le> end_idx (example_door 0 2 (example_params (PStr ''hinged'')))
   \<and> level_msg example_fs example_float ''maps''
     (example_level None [example_door 0 1 (example_params (PStr ''hinged'')),
                          example_door 0 2 (example_params (PStr ''hinged''))]) = Inl IndexError"
proof -
  let ?d = "example_door 0 2 (example_params (PStr ''hinged''))"
  let ?lv = "example_level None [example_door 0 1 (example_params (PStr ''hinged'')), ?d]"
  have "\<exists>e. level_msg example_fs example_float ''maps'' ?lv = Inl e"
    using bad_index_fails [of ?d ?lv example_fs example_float "''maps''"]
    by (simp add: example_level_def example_door_def)
  then obtain e where e: "level_msg example_fs example_float ''maps'' ?lv = Inl e" ..
  then have "e = IndexError"
    by (simp add: example_defs server_defs)
  with e show ?thesis
    by (simp add: example_defs server_defs)
qed


lemma level_msg_returns:
  assumes "image_msgs fs dir lv = Inr imgs"
    and "\<forall>d \<in> set (doors lv). \<exists>m. door_msg py_float lv d = Inr m"
    and "nav_graph_msgs (generate_nav_graph lv) (py_range 0 9) = Inr gs"
  shows "\<exists>m. level_msg fs py_float dir lv = Inr m
           \<and> list_all2 (\<lambda>d dm. door_msg py_float lv d = Inr dm) (doors lv) (Level_doors m)"
proof -
  from map_r_success [OF assms(2)] obtain ds where
    ds: "map_r (door_msg py_float lv) (doors lv) = Inr ds" ..
  have dm: "door_msgs py_float lv = Inr ds"
  proof (cases "doors lv")
    case Nil
    with ds show ?thesis by (simp add: door_msgs_def)
  next
    case (Cons a list)
    with ds show ?thesis by (simp add: door_msgs_def)
  qed
  from assms(1,3) dm map_r_all2 [OF ds] show ?thesis
    by (simp add: level_msg_def)
qed

lemma door_msg_valid:
  assumes "params d ''name'' = Some nm"
    and "py_index (vertices lv) (start_idx d) = Inr v1"
    and "py_index (vertices lv) (end_idx d) = Inr v2"
    and "params d ''motion_degrees'' = Some md"
    and "py_float md = Inr r"
    and "params d ''motion_direction'' = Some direction"
    and "params d ''type'' = Some t"
  shows "door_msg py_float lv d =
     Inr \<lparr>Door_door_name = nm, Door_v1_x = vertex_x v1, Door_v1_y = vertex_y v1,
          Door_v2_x = vertex_x v2, Door_v2_y = vertex_y v2, Door_motion_range = r,
          Door_motion_direction = direction, Door_door_type = door_type_of t\<rparr>"
  using assms by (simp add: door_msg_def py_getitem_def)

text \<open>
  Claim C10. Let a level have \<open>n\<close> vertices and let the door at position \<open>i\<close> of its
  doors have both indices in \<open>-n .. n - 1\<close> and its four parameters present, with a
  motion range that converts. When the image, the other doors and the navigation graphs
  of the level translate, \<open>level_msg\<close> returns, and a negative start (end) index \<open>k\<close> of
  the door gives it the coordinates of the vertex at position \<open>n + k\<close>.
\<close>

theorem negative_index_accepted:
  assumes "i < length (doors lv)" and "doors lv ! i = d"
    and "\<forall>j < length (doors lv). j \<noteq> i \<longrightarrow> (\<exists>m'. door_msg py_float lv (doors lv ! j) = Inr m')"
    and "n = int (length (vertices lv))"
    and "- n \<le> start_idx d" and "start_idx d < n"
    and "- n \<le> end_idx d" and "end_idx d < n"
    and "params d ''name'' = Some nm"
    and "params d ''motion_degrees'' = Some md"
    and "py_float md = Inr r"
    and "params d ''motion_direction'' = Some direction"
    and "params d ''type'' = Some t"
    and "image_msgs fs dir lv = Inr imgs"
    and "nav_graph_msgs (generate_nav_graph lv) (py_range 0 9) = Inr gs"
  shows "\<exists>m. level_msg fs py_float dir lv = Inr m
           \<and> length (Level_doors m) = length (doors lv)
           \<and> (start_idx d < 0 \<longrightarrow>
                Door_v1_x (Level_doors m ! i) = vertex_x (vertices lv ! nat (n + start_idx d))
                \<and> Door_v1_y (Level_doors m ! i) = vertex_y (vertices lv ! nat (n + start_idx d)))
           \<and> (end_idx d < 0 \<longrightarrow>
                Door_v2_x (Level_doors m ! i) = vertex_x (vertices lv ! nat (n + end_idx d))
                \<and> Door_v2_y (Level_doors m ! i) = vertex_y (vertices lv ! nat (n + end_idx d)))"
proof -
  define v1 where "v1 = vertices lv ! nat (if start_idx d < 0 then n + start_idx d else start_idx d)"
  define v2 where "v2 = vertices lv ! nat (if end_idx d < 0 then n + end_idx d else end_idx d)"
  have i1: "py_index (vertices lv) (start_idx d) = Inr v1"
    using assms(4-6) by (simp add: py_index_def v1_def)
  have i2: "py_index (vertices lv) (end_idx d) = Inr v2"
    using assms(4,7,8) by (simp add: py_index_def v2_def)
  note dm = door_msg_valid [where py_float = py_float, OF assms(9) i1 i2 assms(10-13)]
  have "\<exists>m'. door_msg py_float lv d' = Inr m'" if "d' \<in> set (doors lv)" for d'
  proof -
    from that obtain j where j: "j < length (doors lv)" "doors lv ! j = d'"
      by (auto simp: in_set_conv_nth)
    show ?thesis
    proof (cases "j = i")
      case True
      with j assms(2) dm show ?thesis by simp
    next
      case False
      with j assms(3) show ?thesis by auto
    qed
  qed
  then have "\<forall>d' \<in> set (doors lv). \<exists>m'. door_msg py_float lv d' = Inr m'" by blast
  from level_msg_returns [OF assms(14) this assms(15)] obtain m where
    m: "level_msg fs py_float dir lv = Inr m"
    and all2: "list_all2 (\<lambda>d dm. door_msg py_float lv d = Inr dm) (doors lv) (Level_doors m)"
    by blast
  from all2 have len: "length (Level_doors m) = length (doors lv)"
    by (simp add: list_all2_lengthD)
  from list_all2_nthD [OF all2 assms(1)] assms(2) dm have
    "Level_doors m ! i =
       \<lparr>Door_door_name = nm, Door_v1_x = vertex_x v1, Door_v1_y = vertex_y v1,
        Door_v2_x = vertex_x v2, Door_v2_y = vertex_y v2, Door_motion_range = r,
        Door_motion_direction = direction, Door_door_type = door_type_of t\<rparr>"
    by simp
  with m len show ?thesis
    by (simp add: v1_def v2_def)
qed

theorem negative_index_accepted_witness:
  "\<exists>m. level_msg example_fs example_float ''maps''
          (example_level None [example_door (- 1) (- 2) (example_params (PStr ''sliding''))]) = Inr m
     \<and> Door_v1_x (Level_doors m ! 0) = 1 \<and> Door_v1_y (Level_doors m ! 0) = 0
     \<and> Door_v2_x (Level_doors m ! 0) = 0 \<and> Door_v2_y (Level_doors m ! 0) = 0"
proof -
  let ?d = "example_door (- 1) (- 2) (example_params (PStr ''sliding''))"
  let ?lv = "example_level None [?d]"
  have "\<exists>gs. nav_graph_msgs (generate_nav_graph ?lv) (py_range 0 9) = Inr gs"
    by (simp add: example_defs server_defs)
  then obtain gs where gs: "nav_graph_msgs (generate_nav_graph ?lv) (py_range 0 9) = Inr gs" ..
  have img: "image_msgs example_fs ''maps'' ?lv = Inr []"
    by (simp add: image_msgs_def example_level_def)
  from negative_index_accepted [of 0 ?lv ?d example_float 2 "PStr ''main_door''" "PStr ''90''" "Finite 90"
      "PInt 1" "PStr ''sliding''" example_fs "''maps''" "[]" gs, OF _ _ _ _ _ _ _ _ _ _ _ _ _ img gs]
  have "\<exists>m. level_msg example_fs example_float ''maps'' ?lv = Inr m
     \<and> length (Level_doors m) = 1
     \<and> Door_v1_x (Level_doors m ! 0) = 1 \<and> Door_v1_y (Level_doors m ! 0) = 0
     \<and> Door_v2_x (Level_doors m ! 0) = 0 \<and> Door_v2_y (Level_doors m ! 0) = 0"
    by (simp add: example_level_def example_door_def example_params_def example_float_def)
  then show ?thesis by blast
qed

section \<open>Required parameters of a door\<close>

lemma door_msg_Inr:
  assumes "door_msg py_float lv d = Inr m"
  shows "params d ''name'' = Some (Door_door_name m)
         \<and> (\<exists>v. params d ''motion_degrees'' = Some v \<and> py_float v = Inr (Door_motion_range m))
         \<and> params d ''motion_direction'' = Some (Door_motion_direction m)
         \<and> (\<exists>t. params d ''type'' = Some t \<and> Door_door_type m = door_type_of t)"
  using assms
  by (auto simp: door_msg_def bind_r_eq_Inr py_getitem_def split: option.splits)

lemma door_msg_missing:
  assumes "params d ''name'' = None \<or> params d ''motion_degrees'' = None
           \<or> params d ''motion_direction'' = None \<or> params d ''type'' = None
           \<or> (\<exists>v e. params d ''motion_degrees'' = Some v \<and> py_float v = Inl e)"
  shows "isl (door_msg py_float lv d)"
proof (cases "door_msg py_float lv d")
  case (Inl e)
  then show ?thesis by simp
next
  case (Inr m)
  from door_msg_Inr [OF Inr] assms show ?thesis by auto
qed

text \<open>
  Claim C7. Whatever \<open>float\<close> does (the theorem holds for every \<open>py_float\<close>), for a door
  of a level: if one of the parameters \<open>name\<close>, \<open>motion_degrees\<close>, \<open>motion_direction\<close>,
  \<open>type\<close> is missing, or \<open>float\<close> raises on the value of \<open>motion_degrees\<close> (a string it
  cannot parse, an integer out of range, None), then \<open>level_msg\<close> raises for the level and
  \<open>building_map_msg\<close> for every building that holds it; no default is put in. A door
  message that is returned carries the bag's own \<open>name\<close> and \<open>motion_direction\<close>, the
  very double \<open>float\<close> returned for the bag's \<open>motion_degrees\<close>, and the type the table
  gives for the bag's \<open>type\<close>; and it is returned whenever the four parameters are
  present, \<open>float\<close> returns on the motion range and the two vertex indices are valid.
\<close>

theorem required_parameters:
  assumes "d \<in> set (doors lv)"
  shows "((params d ''name'' = None \<or> params d ''motion_degrees'' = None
            \<or> params d ''motion_direction'' = None \<or> params d ''type'' = None
            \<or> (\<exists>v e. params d ''motion_degrees'' = Some v \<and> py_float v = Inl e))
          \<longrightarrow> (\<exists>e. level_msg fs py_float dir lv = Inl e)
               \<and> (\<forall>b k. (k, lv) \<in> set (levels b)
                     \<longrightarrow> (\<exists>e. building_map_msg fs py_float dir b = Inl e)))
         \<and> (\<forall>m. door_msg py_float lv d = Inr m \<longrightarrow>
               params d ''name'' = Some (Door_door_name m)
               \<and> (\<exists>v. params d ''motion_degrees'' = Some v
                     \<and> py_float v = Inr (Door_motion_range m))
               \<and> params d ''motion_direction'' = Some (Door_motion_direction m)
               \<and> (\<exists>t. params d ''type'' = Some t \<and> Door_door_type m = door_type_of t))
         \<and> (\<forall>nm md r direction t v1 v2.
               params d ''name'' = Some nm \<and> params d ''motion_degrees'' = Some md
               \<and> py_float md = Inr r \<and> params d ''motion_direction'' = Some direction
               \<and> params d ''type'' = Some t
               \<and> py_index (vertices lv) (start_idx d) = Inr v1
               \<and> py_index (vertices lv) (end_idx d) = Inr v2
               \<longrightarrow> (\<exists>m. door_msg py_float lv d = Inr m
                      \<and> Door_door_name m = nm \<and> Door_motion_range m = r
                      \<and> Door_motion_direction m = direction))"
proof (intro conjI impI allI)
  assume bad: "params d ''name'' = None \<or> params d ''motion_degrees'' = None
            \<or> params d ''motion_direction'' = None \<or> params d ''type'' = None
            \<or> (\<exists>v e. params d ''motion_degrees'' = Some v \<and> py_float v = Inl e)"
  have lv: "isl (level_msg fs py_float dir lv)"
    using level_msg_door_fails [OF assms door_msg_missing [OF bad]] .
  then show "\<exists>e. level_msg fs py_float dir lv = Inl e"
    by (simp add: isl_def)
  fix b :: building and k
  assume "(k, lv) \<in> set (levels b)"
  from building_level_fails [OF this lv]
  show "\<exists>e. building_map_msg fs py_float dir b = Inl e"
    by (simp add: isl_def)
next
  fix m
  assume m: "door_msg py_float lv d = Inr m"
  from door_msg_Inr [OF m]
  show "params d ''name'' = Some (Door_door_name m)"
    and "\<exists>v. params d ''motion_degrees'' = Some v \<and> py_float v = Inr (Door_motion_range m)"
    and "params d ''motion_direction'' = Some (Door_motion_direction m)"
    and "\<exists>t. params d ''type'' = Some t \<and> Door_door_type m = door_type_of t"
    by simp_all
next
  fix nm md r direction t v1 v2
  assume "params d ''name'' = Some nm \<and> params d ''motion_degrees'' = Some md
               \<and> py_float md = Inr r \<and> params d ''motion_direction'' = Some direction
               \<and> params d ''type'' = Some t
               \<and> py_index (vertices lv) (start_idx d) = Inr v1
               \<and> py_index (vertices lv) (end_idx d) = Inr v2"
  then show "\<exists>m. door_msg py_float lv d = Inr m
                      \<and> Door_door_name m = nm \<and> Door_motion_range m = r
                      \<and> Door_motion_direction m = direction"
    by (simp add: door_msg_valid)
qed

theorem required_parameters_witness:
  "level_msg example_fs example_float ''maps''
     (example_level None [example_door 0 1 ((example_params (PStr ''hinged''))(''type'' := None))])
     = Inl (KeyError ''type'')
   \<and> level_msg example_fs example_float ''maps''
     (example_level None
        [example_door 0 1 ((example_params (PStr ''hinged''))(''motion_degrees'' \<mapsto> PStr ''wide''))])
     = Inl ValueError
   \<and> level_msg example_fs example_float ''maps''
     (example_level None
        [example_door 0 1 ((example_params (PStr ''hinged''))(''motion_degrees'' \<mapsto> PInt (10 ^ 400)))])
     = Inl OverflowError
   \<and> (\<exists>m. door_msg example_float (example_level None [])
            (example_door 0 1 (example_params (PStr ''hinged''))) = Inr m
         \<and> Door_door_name m = PStr ''main_door'' \<and> Door_motion_range m = Finite 90
         \<and> Door_motion_direction m = PInt 1)"
proof -
  let ?d1 = "example_door 0 1 ((example_params (PStr ''hinged''))(''type'' := None))"
  let ?d2 = "example_door 0 1 ((example_params (PStr ''hinged''))(''motion_degrees'' \<mapsto> PStr ''wide''))"
  let ?d3 = "example_door 0 1 (example_params (PStr ''hinged''))"
  let ?d4 = "example_door 0 1 ((example_params (PStr ''hinged''))(''motion_degrees'' \<mapsto> PInt (10 ^ 400)))"
  have "\<exists>e. level_msg example_fs example_float ''maps'' (example_level None [?d1]) = Inl e"
    using required_parameters [of ?d1 "example_level None [?d1]" example_float example_fs "''maps''"]
    by (simp add: example_level_def example_door_def example_params_def)
  then obtain e1 where e1: "level_msg example_fs example_float ''maps'' (example_level None [?d1]) = Inl e1" ..
  then have "e1 = KeyError ''type''"
    by (simp add: example_defs server_defs)
  have "\<exists>e. level_msg example_fs example_float ''maps'' (example_level None [?d2]) = Inl e"
    using required_parameters [of ?d2 "example_level None [?d2]" example_float example_fs "''maps''"]
    by (simp add: example_level_def example_door_def example_params_def example_float_def)
  then obtain e2 where e2: "level_msg example_fs example_float ''maps'' (example_level None [?d2]) = Inl e2" ..
  then have "e2 = ValueError"
    by (simp add: example_defs server_defs)
  have "\<exists>e. level_msg example_fs example_float ''maps'' (example_level None [?d4]) = Inl e"
    using required_parameters [of ?d4 "example_level None [?d4]" example_float example_fs "''maps''"]
    by (simp add: example_level_def example_door_def example_params_def example_float_def)
  then obtain e4 where e4: "level_msg example_fs example_float ''maps'' (example_level None [?d4]) = Inl e4" ..
  then have "e4 = OverflowError"
    by (simp add: example_defs server_defs)
  have "\<exists>m. door_msg example_float (example_level None [?d3]) ?d3 = Inr m
         \<and> Door_door_name m = PStr ''main_door'' \<and> Door_motion_range m = Finite 90
         \<and> Door_motion_direction m = PInt 1"
    using required_parameters [of ?d3 "example_level None [?d3]" example_float example_fs "''maps''"]
    by (simp add: example_level_def example_door_def example_params_def example_float_def py_index_def)
  then have "\<exists>m. door_msg example_float (example_level None []) ?d3 = Inr m
         \<and> Door_door_name m = PStr ''main_door'' \<and> Door_motion_range m = Finite 90
         \<and> Door_motion_direction m = PInt 1"
    by (simp add: door_msg_def example_level_def)
  with e1 e2 e4 \<open>e1 = KeyError ''type''\<close> \<open>e2 = ValueError\<close> \<open>e4 = OverflowError\<close>
  show ?thesis by simp
qed

section \<open>Navigation graphs\<close>

lemma graph_edge_Inr:
  assumes "graph_edge l = Inr e"
  shows "\<exists>b. snd (snd l) ''is_bidirectional'' = Some b
           \<and> GraphEdge_edge_type e =
               (if py_truthy b then EDGE_TYPE_BIDIRECTIONAL else EDGE_TYPE_UNIDIRECTIONAL)
           \<and> GraphEdge_v1_idx e = fst l \<and> GraphEdge_v2_idx e = fst (snd l)"
  using assms
  by (auto simp: graph_edge_def bind_r_eq_Inr py_getitem_def split: option.splits)

lemma graph_msg_Inr:
  assumes "graph_msg i g = Inr m"
  shows "Graph_name m = py_str i
         \<and> list_all2 (\<lambda>l e. graph_edge l = Inr e) (lanes_of g) (Graph_edges m)"
  using assms
  by (auto simp: graph_msg_def bind_r_eq_Inr dest: map_r_all2)

lemma nav_graph_msgs_all2:
  "nav_graph_msgs gen ks = Inr gs \<Longrightarrow>
   list_all2 (\<lambda>i g. graph_msg i (gen i False) = Inr g)
     (filter (\<lambda>i. lanes_of (gen i False) \<noteq> []) ks) gs"
proof (induction ks arbitrary: gs)
  case Nil
  then show ?case by simp
next
  case (Cons i ks)
  show ?case
  proof (cases "lanes_of (gen i False) = []")
    case True
    with Cons show ?thesis by simp
  next
    case False
    with Cons.prems obtain gm gs' where
      "graph_msg i (gen i False) = Inr gm" "nav_graph_msgs gen ks = Inr gs'" "gs = gm # gs'"
      by (auto simp: bind_r_eq_Inr)
    with False Cons.IH show ?thesis by simp
  qed
qed

lemma nav_graph_msgs_cong:
  "\<forall>i \<in> set ks. gen' i False = gen i False \<Longrightarrow> nav_graph_msgs gen' ks = nav_graph_msgs gen ks"
  by (induction ks) (simp_all add: Let_def)

lemma py_str_digit: "0 \<le> k \<Longrightarrow> k \<le> 9 \<Longrightarrow> py_str k = [digit_char (nat k)]"
  by (simp add: py_str_def)

lemma digit_char_inj:
  assumes "i < 10" and "j < 10" and "digit_char i = digit_char j"
  shows "i = j"
proof -
  have "distinct ''0123456789''" by simp
  moreover have "i < length ''0123456789''" "j < length ''0123456789''"
    using assms(1,2) by simp_all
  ultimately show ?thesis
    using assms(3) unfolding digit_char_def by (simp only: nth_eq_iff_index_eq)
qed

lemma py_str_inj:
  assumes "0 \<le> i" "i \<le> 8" "0 \<le> j" "j \<le> 8" "py_str i = py_str j"
  shows "i = j"
proof -
  from assms have "digit_char (nat i) = digit_char (nat j)"
    by (simp add: py_str_digit)
  moreover from assms have "nat i < 10" "nat j < 10" by simp_all
  ultimately have "nat i = nat j" by (rule_tac digit_char_inj)
  with assms show ?thesis by simp
qed

lemma filter_by_name_absent:
  assumes "list_all2 R xs ys"
    and "\<And>i g. i \<in> set xs \<Longrightarrow> R i g \<Longrightarrow> nm g = f i"
    and "\<And>i. i \<in> set xs \<Longrightarrow> f i = f k \<Longrightarrow> i = k"
    and "k \<notin> set xs"
  shows "filter (\<lambda>g. nm g = f k) ys = []"
  using assms
proof (induction rule: list_all2_induct)
  case Nil
  then show ?case by simp
next
  case (Cons x xs y ys)
  from Cons.prems(1) [of x y] Cons.hyps(1) have "nm y = f x" by simp
  moreover from Cons.prems(2) [of x] Cons.prems(3) have "f x \<noteq> f k" by auto
  moreover have "filter (\<lambda>g. nm g = f k) ys = []"
    using Cons.IH Cons.prems by auto
  ultimately show ?case by simp
qed

lemma filter_by_name_present:
  assumes "list_all2 R xs ys"
    and "\<And>i g. i \<in> set xs \<Longrightarrow> R i g \<Longrightarrow> nm g = f i"
    and "\<And>i. i \<in> set xs \<Longrightarrow> f i = f k \<Longrightarrow> i = k"
    and "distinct xs" and "k \<in> set xs"
  shows "\<exists>g. filter (\<lambda>g. nm g = f k) ys = [g] \<and> R k g"
  using assms
proof (induction rule: list_all2_induct)
  case Nil
  then show ?case by simp
next
  case (Cons x xs y ys)
  from Cons.prems(1) [of x y] Cons.hyps(1) have y: "nm y = f x" by simp
  show ?case
  proof (cases "x = k")
    case True
    with Cons.prems(3) have "k \<notin> set xs" by simp
    with Cons.hyps(2) Cons.prems(1,2) have "filter (\<lambda>g. nm g = f k) ys = []"
      by (intro filter_by_name_absent [where R = R and xs = xs]) auto
    with True y Cons.hyps(1) show ?thesis by simp
  next
    case False
    with Cons.prems(2) [of x] have "f x \<noteq> f k" by auto
    moreover from False Cons.prems have "\<exists>g. filter (\<lambda>g. nm g = f k) ys = [g] \<and> R k g"
      by (intro Cons.IH) auto
    ultimately show ?thesis using y by simp
  qed
qed

lemma level_msg_nav_graphs:
  "level_msg fs py_float dir lv = Inr m \<Longrightarrow>
   nav_graph_msgs (generate_nav_graph lv) (py_range 0 9) = Inr (Level_nav_graphs m)"
  by (auto simp: level_msg_def bind_r_eq_Inr)

lemma image_msgs_generator:
  "image_msgs fs dir (lv\<lparr>generate_nav_graph := gen'\<rparr>) = image_msgs fs dir lv"
  by (simp add: image_msgs_def split: option.split)

lemma door_msg_generator:
  "door_msg py_float (lv\<lparr>generate_nav_graph := gen'\<rparr>) = door_msg py_float lv"
  by (rule ext) (simp add: door_msg_def)

lemma door_msgs_generator:
  "door_msgs py_float (lv\<lparr>generate_nav_graph := gen'\<rparr>) = door_msgs py_float lv"
  by (simp add: door_msgs_def door_msg_generator)

lemma level_msg_generator:
  assumes "\<forall>j \<in> {0..8}. gen' j False = generate_nav_graph lv j False"
  shows "level_msg fs py_float dir (lv\<lparr>generate_nav_graph := gen'\<rparr>) = level_msg fs py_float dir lv"
proof -
  have "nav_graph_msgs gen' (py_range 0 9) = nav_graph_msgs (generate_nav_graph lv) (py_range 0 9)"
    using assms by (intro nav_graph_msgs_cong) (simp add: py_range_def)
  then show ?thesis
    by (simp add: level_msg_def image_msgs_generator door_msgs_generator)
qed

text \<open>
  Claim C4. In the message of a level, for an index \<open>k\<close> from 0 to 8: if the graph
  generated for \<open>k\<close> with \<open>always_unidirectional = False\<close> has no lanes, no navigation
  graph of the message is named \<open>str(k)\<close>; if it has lanes, exactly one is, and its edges
  are those lanes in order, each bidirectional when the lane's \<open>is_bidirectional\<close> is
  true and unidirectional otherwise. Every graph of the message is named for an index
  from 0 to 8, and the message does not depend on what the generator returns for any
  other index or for the flag set: only the indices 0 to 8 are queried, with the flag
  false.
\<close>

theorem nav_graphs_sparse:
  assumes "level_msg fs py_float dir lv = Inr m" and "0 \<le> k" and "k \<le> 8"
  shows "(lanes_of (generate_nav_graph lv k False) = []
            \<longrightarrow> filter (\<lambda>g. Graph_name g = py_str k) (Level_nav_graphs m) = [])
         \<and> (lanes_of (generate_nav_graph lv k False) \<noteq> []
            \<longrightarrow> (\<exists>g. filter (\<lambda>g. Graph_name g = py_str k) (Level_nav_graphs m) = [g]
                   \<and> list_all2
                       (\<lambda>l e. \<exists>b. snd (snd l) ''is_bidirectional'' = Some b
                          \<and> GraphEdge_edge_type e =
                              (if py_truthy b then EDGE_TYPE_BIDIRECTIONAL
                               else EDGE_TYPE_UNIDIRECTIONAL)
                          \<and> GraphEdge_v1_idx e = fst l \<and> GraphEdge_v2_idx e = fst (snd l))
                       (lanes_of (generate_nav_graph lv k False)) (Graph_edges g)))
         \<and> set (map Graph_name (Level_nav_graphs m)) \<subseteq> py_str ` {0..8}
         \<and> (\<forall>gen'. (\<forall>j \<in> {0..8}. gen' j False = generate_nav_graph lv j False)
               \<longrightarrow> level_msg fs py_float dir (lv\<lparr>generate_nav_graph := gen'\<rparr>) = Inr m)"
proof -
  let ?gen = "generate_nav_graph lv"
  let ?R = "\<lambda>i g. graph_msg i (?gen i False) = Inr g"
  let ?xs = "filter (\<lambda>i. lanes_of (?gen i False) \<noteq> []) (py_range 0 9)"
  have all2: "list_all2 ?R ?xs (Level_nav_graphs m)"
    using nav_graph_msgs_all2 [OF level_msg_nav_graphs [OF assms(1)]] .
  have nm: "Graph_name g = py_str i" if "?R i g" for i g
    using graph_msg_Inr [OF that] by simp
  have inj: "i = k" if "i \<in> set ?xs" "py_str i = py_str k" for i
    using that assms(2,3) by (intro py_str_inj) (auto simp: py_range_def)
  have dist: "distinct ?xs"
    by (simp add: py_range_def)
  have absent: "filter (\<lambda>g. Graph_name g = py_str k) (Level_nav_graphs m) = []"
    if "lanes_of (?gen k False) = []"
    using all2 by (rule filter_by_name_absent) (use that nm inj in auto)
  have present: "\<exists>g. filter (\<lambda>g. Graph_name g = py_str k) (Level_nav_graphs m) = [g]
         \<and> list_all2
             (\<lambda>l e. \<exists>b. snd (snd l) ''is_bidirectional'' = Some b
                \<and> GraphEdge_edge_type e =
                    (if py_truthy b then EDGE_TYPE_BIDIRECTIONAL else EDGE_TYPE_UNIDIRECTIONAL)
                \<and> GraphEdge_v1_idx e = fst l \<and> GraphEdge_v2_idx e = fst (snd l))
             (lanes_of (?gen k False)) (Graph_edges g)"
    if "lanes_of (?gen k False) \<noteq> []"
  proof -
    from that assms(2,3) have "k \<in> set ?xs"
      by (simp add: py_range_def)
    with all2 nm inj dist have "\<exists>g. filter (\<lambda>g. Graph_name g = py_str k) (Level_nav_graphs m) = [g] \<and> ?R k g"
      by (intro filter_by_name_present) auto
    then obtain g where g: "filter (\<lambda>g. Graph_name g = py_str k) (Level_nav_graphs m) = [g]"
      and rg: "graph_msg k (?gen k False) = Inr g" by blast
    from graph_msg_Inr [OF rg] have "list_all2 (\<lambda>l e. graph_edge l = Inr e) (lanes_of (?gen k False)) (Graph_edges g)"
      by simp
    then have "list_all2
             (\<lambda>l e. \<exists>b. snd (snd l) ''is_bidirectional'' = Some b
                \<and> GraphEdge_edge_type e =
                    (if py_truthy b then EDGE_TYPE_BIDIRECTIONAL else EDGE_TYPE_UNIDIRECTIONAL)
                \<and> GraphEdge_v1_idx e = fst l \<and> GraphEdge_v2_idx e = fst (snd l))
             (lanes_of (?gen k False)) (Graph_edges g)"
      by (rule list_all2_mono) (rule graph_edge_Inr)
    with g show ?thesis by blast
  qed
  have names: "set (map Graph_name (Level_nav_graphs m)) \<subseteq> py_str ` {0..8}"
  proof
    fix n
    assume "n \<in> set (map Graph_name (Level_nav_graphs m))"
    then obtain g where g: "g \<in> set (Level_nav_graphs m)" and n: "n = Graph_name g" by auto
    from g obtain p where p: "p < length (Level_nav_graphs m)" "Level_nav_graphs m ! p = g"
      by (auto simp: in_set_conv_nth)
    from all2 have len: "length ?xs = length (Level_nav_graphs m)"
      by (rule list_all2_lengthD)
    from list_all2_nthD2 [OF all2 p(1)] p(2) have "?R (?xs ! p) g" by simp
    then have "Graph_name g = py_str (?xs ! p)" by (rule nm)
    moreover have "p < length ?xs" using p(1) len by simp
    then have "?xs ! p \<in> set ?xs" by (rule nth_mem)
    then have "?xs ! p \<in> {0..8}" by (auto simp: py_range_def)
    ultimately show "n \<in> py_str ` {0..8}" using n by blast
  qed
  have gen: "level_msg fs py_float dir (lv\<lparr>generate_nav_graph := gen'\<rparr>) = Inr m"
    if "\<forall>j \<in> {0..8}. gen' j False = generate_nav_graph lv j False" for gen'
    using level_msg_generator [where gen' = gen' and lv = lv, OF that] assms(1) by simp
  from absent present names gen show ?thesis by blast
qed

theorem nav_graphs_sparse_witness:
  "\<exists>m. level_msg example_fs example_float ''maps'' (example_level None []) = Inr m
     \<and> map Graph_name (Level_nav_graphs m) = [''0'']
     \<and> filter (\<lambda>g. Graph_name g = py_str 1) (Level_nav_graphs m) = []
     \<and> (\<exists>g. filter (\<lambda>g. Graph_name g = py_str 0) (Level_nav_graphs m) = [g]
          \<and> map GraphEdge_edge_type (Graph_edges g) = [EDGE_TYPE_BIDIRECTIONAL])"
proof -
  let ?lv = "example_level None []"
  have "\<exists>m. level_msg example_fs example_float ''maps'' ?lv = Inr m"
    by (simp add: example_defs server_defs)
  then obtain m where m: "level_msg example_fs example_float ''maps'' ?lv = Inr m" ..
  have names: "map Graph_name (Level_nav_graphs m) = [''0'']"
    using m by (auto simp: example_defs server_defs)
  have one: "filter (\<lambda>g. Graph_name g = py_str 1) (Level_nav_graphs m) = []"
    using nav_graphs_sparse [OF m, of 1]
    by (simp add: example_level_def example_graph_def)
  from nav_graphs_sparse [OF m, of 0] obtain g where
    g: "filter (\<lambda>g. Graph_name g = py_str 0) (Level_nav_graphs m) = [g]"
    and e: "list_all2
             (\<lambda>l e. \<exists>b. snd (snd l) ''is_bidirectional'' = Some b
                \<and> GraphEdge_edge_type e =
                    (if py_truthy b then EDGE_TYPE_BIDIRECTIONAL else EDGE_TYPE_UNIDIRECTIONAL)
                \<and> GraphEdge_v1_idx e = fst l \<and> GraphEdge_v2_idx e = fst (snd l))
             (lanes_of (generate_nav_graph ?lv 0 False)) (Graph_edges g)"
    by (auto simp: example_level_def example_graph_def)
  from e have "map GraphEdge_edge_type (Graph_edges g) = [EDGE_TYPE_BIDIRECTIONAL]"
    by (auto simp: example_level_def example_graph_def list_all2_Cons1)
  with m names one g show ?thesis
    by (intro exI [of _ m]) simp
qed

section \<open>The end-to-end scenario of the specification\<close>

text \<open>
  One level \<open>L1\<close> at elevation 0 with a hinged door between the vertices (0, 0) and
  (1, 0), no lifts, one bidirectional lane in graph 0 and no lanes in the graphs 1 to 8:
  the message has one level with one single-swing door and one navigation graph, named
  \<open>0\<close>, with one bidirectional edge, and no lifts.
\<close>

lemma end_to_end:
  "building_map_msg example_fs example_float ''maps''
     \<lparr>building_name = ''demo'',
      levels = [(''L1'', example_level None [example_door 0 1 (example_params (PStr ''hinged''))])],
      lifts = []\<rparr>
   = Inr \<lparr>BuildingMap_name = ''demo'',
          BuildingMap_levels =
            [\<lparr>Level_name = ''L1'', Level_elevation = 0, Level_images = [],
              Level_doors =
                [\<lparr>Door_door_name = PStr ''main_door'', Door_v1_x = 0, Door_v1_y = 0,
                  Door_v2_x = 1, Door_v2_y = 0, Door_motion_range = Finite 90,
                  Door_motion_direction = PInt 1, Door_door_type = DOOR_TYPE_SINGLE_SWING\<rparr>],
              Level_nav_graphs =
                [\<lparr>Graph_name = ''0'',
                  Graph_vertices =
                    [\<lparr>GraphNode_x = 0, GraphNode_y = 0, GraphNode_name = PStr ''a''\<rparr>,
                     \<lparr>GraphNode_x = 1, GraphNode_y = 0, GraphNode_name = PStr ''b''\<rparr>],
                  Graph_edges =
                    [\<lparr>GraphEdge_v1_idx = 0, GraphEdge_v2_idx = 1,
                      GraphEdge_edge_type = EDGE_TYPE_BIDIRECTIONAL\<rparr>]\<rparr>]\<rparr>],
          BuildingMap_lifts = []\<rparr>"
  by (simp add: example_defs server_defs)

end
